theory Spec2Isabelle
  imports Main "HOL-Library.Word"
begin

section \<open>json2csv: flattening JSON documents into key/value rows\<close>

text \<open>
  A shallow embedding of \<^verbatim>\<open>src/json2csv.py\<close>. Python's \<^verbatim>\<open>str\<close> is modelled by
  \<^typ>\<open>string\<close>: one \<^typ>\<open>char\<close> stands for one character of the Python string, so
  \<^const>\<open>length\<close> is Python's \<^verbatim>\<open>len\<close> (the model covers the characters with
  code points below 256). Exceptions are values; a generator is the list of the
  pairs it yields together with the exception that ended it, if any.
\<close>

subsection \<open>Exceptions\<close>

text \<open>
  The exception classes the program raises or meets. \<open>NotModelled\<close> is not a Python
  class: the model of \<^verbatim>\<open>str.format\<close> below answers with it on a format string that
  uses a feature outside the fragment it covers.
\<close>

datatype pyexc = ValueError | IndexError | KeyError | OSError | FileNotFoundError | NotModelled

subsection \<open>Python's \<^verbatim>\<open>str(index)\<close> and \<^verbatim>\<open>index_format.format(index)\<close>\<close>

text \<open>
  The program renders an array index with the built-in \<^verbatim>\<open>str.format\<close>, called with
  one non-negative \<^verbatim>\<open>int\<close>. The built-in is not code of the repository; it is modelled
  here after CPython for literal text, the brace escapes and replacement fields
  \<^verbatim>\<open>{[arg][:[[fill]align][sign][#][0][width][type]]}\<close> with the presentation types
  \<^verbatim>\<open>d b o x X\<close>; a precision is the \<^verbatim>\<open>ValueError\<close> it is for an integer. Conversions
  (\<^verbatim>\<open>!r\<close>), attribute and item access in a field name, nested fields, grouping, the
  \<^verbatim>\<open>z\<close> flag, the remaining presentation types and numbers of more than nine digits
  in a format are answered with \<open>NotModelled\<close>. Where the model answers otherwise, its
  answer is that of CPython 3.11.
\<close>

definition digit_char :: "nat \<Rightarrow> char" where
  "digit_char d = ''0123456789abcdef'' ! d"

fun to_base :: "nat \<Rightarrow> nat \<Rightarrow> string" where
  "to_base b n =
     (if n < b \<or> b < 2 then [digit_char n] else to_base b (n div b) @ [digit_char (n mod b)])"

declare to_base.simps [simp del]

text \<open>\<^verbatim>\<open>str(index)\<close> for a non-negative integer.\<close>

definition py_str :: "nat \<Rightarrow> string" where
  "py_str n = to_base 10 n"

definition is_digit :: "char \<Rightarrow> bool" where
  "is_digit c = (c \<in> set ''0123456789'')"

definition digit_val :: "char \<Rightarrow> nat" where
  "digit_val c = of_char c - 48"

text \<open>The value of a string of decimal digits (CPython's \<^verbatim>\<open>get_integer\<close>).\<close>

definition get_integer :: "string \<Rightarrow> nat" where
  "get_integer ds = foldl (\<lambda>acc c. acc * 10 + digit_val c) 0 ds"

record int_spec =
  fill_char :: char
  align :: char
  sign :: char
  alternate :: bool
  width :: nat
  ptype :: char

definition is_align :: "char \<Rightarrow> bool" where
  "is_align c = (c \<in> set ''<>=^'')"

definition is_sign :: "char \<Rightarrow> bool" where
  "is_sign c = (c \<in> set ''+- '')"

text \<open>
  The format specification of a number, read left to right as CPython's
  \<^verbatim>\<open>parse_internal_render_format_spec\<close> does: fill and alignment, sign, \<^verbatim>\<open>#\<close>, the
  \<^verbatim>\<open>0\<close> flag (fill with zeros, and pad after the sign unless an alignment was given),
  the width, and at most one character for the presentation type.
\<close>

fun parse_fill_align :: "string \<Rightarrow> char option \<times> char option \<times> string" where
  "parse_fill_align (f # a # rest) =
     (if is_align a then (Some f, Some a, rest)
      else if is_align f then (None, Some f, a # rest)
      else (None, None, f # a # rest))"
| "parse_fill_align [a] = (if is_align a then (None, Some a, []) else (None, None, [a]))"
| "parse_fill_align [] = (None, None, [])"

fun parse_sign :: "string \<Rightarrow> char \<times> string" where
  "parse_sign (c # rest) = (if is_sign c then (c, rest) else (CHR ''-'', c # rest))"
| "parse_sign [] = (CHR ''-'', [])"

fun parse_alternate :: "string \<Rightarrow> bool \<times> string" where
  "parse_alternate (c # rest) = (if c = CHR ''#'' then (True, rest) else (False, c # rest))"
| "parse_alternate [] = (False, [])"

fun parse_zero :: "string \<Rightarrow> bool \<times> string" where
  "parse_zero (c # rest) = (if c = CHR ''0'' then (True, rest) else (False, c # rest))"
| "parse_zero [] = (False, [])"

text \<open>
  What follows the width: a precision is an error for an integer unless the
  presentation type converts it to a float; otherwise at most the type is left.
\<close>

definition parse_type :: "string \<Rightarrow> pyexc + char" where
  "parse_type s =
     (if s \<noteq> [] \<and> hd s \<in> set '',_'' then Inl NotModelled
      else if s \<noteq> [] \<and> hd s = CHR ''.'' then
        (let ds = takeWhile is_digit (tl s); r = dropWhile is_digit (tl s) in
         if ds = [] then Inl ValueError
         else if length ds > 9 then Inl NotModelled
         else if length r = 1 \<and> hd r \<in> set ''eEfFgG%'' then Inl NotModelled
         else Inl ValueError)
      else if length s > 1 then Inl ValueError
      else if s = [] then Inr (CHR ''d'')
      else if hd s \<in> set ''cneEfFgG%'' then Inl NotModelled
      else if hd s \<in> set ''dboxX'' then Inr (hd s)
      else Inl ValueError)"

definition parse_format_spec :: "string \<Rightarrow> pyexc + int_spec" where
  "parse_format_spec spec =
     (case parse_fill_align spec of (fill_opt, align_opt, s1) \<Rightarrow>
     (case parse_sign s1 of (sg, s2) \<Rightarrow>
        if s2 \<noteq> [] \<and> hd s2 = CHR ''z'' then Inl NotModelled
        else
     (case parse_alternate s2 of (alt, s3) \<Rightarrow>
     (case (if fill_opt = None then parse_zero s3 else (False, s3)) of (zero, s4) \<Rightarrow>
        if length (takeWhile is_digit s4) > 9 then Inl NotModelled
        else
          (case parse_type (dropWhile is_digit s4) of
             Inl e \<Rightarrow> Inl e
           | Inr t \<Rightarrow> Inr \<lparr>
               fill_char = (case fill_opt of Some f \<Rightarrow> f
                            | None \<Rightarrow> if zero then CHR ''0'' else CHR '' ''),
               align = (case align_opt of Some a \<Rightarrow> a
                        | None \<Rightarrow> if zero then CHR ''='' else CHR ''>''),
               sign = sg, alternate = alt,
               width = get_integer (takeWhile is_digit s4), ptype = t \<rparr>)))))"

definition upper_hex :: "char \<Rightarrow> char" where
  "upper_hex c = (if c \<in> set ''abcdef'' then char_of (of_char c - (32::nat)) else c)"

definition int_digits :: "char \<Rightarrow> nat \<Rightarrow> string" where
  "int_digits t n =
     (if t = CHR ''b'' then to_base 2 n
      else if t = CHR ''o'' then to_base 8 n
      else if t = CHR ''x'' then to_base 16 n
      else if t = CHR ''X'' then map upper_hex (to_base 16 n)
      else to_base 10 n)"

definition int_prefix :: "int_spec \<Rightarrow> string" where
  "int_prefix sp =
     (if alternate sp \<and> ptype sp \<noteq> CHR ''d'' then [CHR ''0'', ptype sp] else [])"

definition sign_text :: "int_spec \<Rightarrow> string" where
  "sign_text sp = (if sign sp = CHR ''-'' then [] else [sign sp])"

text \<open>\<^verbatim>\<open>int.__format__\<close> of a non-negative integer under a parsed specification.\<close>

definition render_int :: "int_spec \<Rightarrow> nat \<Rightarrow> string" where
  "render_int sp n =
     (let lead = sign_text sp @ int_prefix sp;
          ds = int_digits (ptype sp) n;
          pad = width sp - (length lead + length ds);
          f = fill_char sp
      in if align sp = CHR ''<'' then lead @ ds @ replicate pad f
         else if align sp = CHR ''^''
           then replicate (pad div 2) f @ lead @ ds @ replicate (pad - pad div 2) f
         else if align sp = CHR ''='' then lead @ replicate pad f @ ds
         else replicate pad f @ lead @ ds)"

definition format_int :: "string \<Rightarrow> nat \<Rightarrow> pyexc + string" where
  "format_int spec n =
     (if spec = [] then Inr (py_str n)
      else case parse_format_spec spec of
             Inl e \<Rightarrow> Inl e
           | Inr sp \<Rightarrow> Inr (render_int sp n))"

text \<open>
  A replacement field, from the character after its opening brace: the field name
  runs to the first \<^verbatim>\<open>}\<close>, \<^verbatim>\<open>:\<close> or \<^verbatim>\<open>!\<close>; a format specification runs to the
  closing brace. The result is the name, the specification and the text after the
  field.
\<close>

definition field_name_end :: "char \<Rightarrow> bool" where
  "field_name_end c = (c \<in> set ''}:!{['')"

definition brace :: "char \<Rightarrow> bool" where
  "brace c = (c \<in> set ''{}'')"

definition parse_spec :: "string \<Rightarrow> string \<Rightarrow> pyexc + (string \<times> string \<times> string)" where
  "parse_spec name s =
     (case dropWhile (\<lambda>c. \<not> brace c) s of
        [] \<Rightarrow> Inl ValueError
      | c # after \<Rightarrow>
          if c = CHR ''{'' then Inl NotModelled
          else Inr (name, takeWhile (\<lambda>c. \<not> brace c) s, after))"

definition parse_field :: "string \<Rightarrow> pyexc + (string \<times> string \<times> string)" where
  "parse_field s =
     (case dropWhile (\<lambda>c. \<not> field_name_end c) s of
        [] \<Rightarrow> Inl ValueError
      | c # after \<Rightarrow>
          if c = CHR ''{'' then Inl ValueError
          else if c = CHR ''['' \<or> c = CHR ''!'' then Inl NotModelled
          else if c = CHR ''}'' then Inr (takeWhile (\<lambda>c. \<not> field_name_end c) s, [], after)
          else parse_spec (takeWhile (\<lambda>c. \<not> field_name_end c) s) after)"

lemma dropWhile_Cons_shorter: "dropWhile P s = c # r \<Longrightarrow> length r < length s"
  using length_dropWhile_le [of P s] by simp

lemma parse_spec_shorter:
  "parse_spec name s = Inr (nm, spec, after) \<Longrightarrow> length after < length s"
  by (auto simp: parse_spec_def split: list.splits if_splits dest: dropWhile_Cons_shorter)

lemma parse_field_shorter:
  "parse_field s = Inr (nm, spec, after) \<Longrightarrow> length after < length s"
  by (auto simp: parse_field_def split: list.splits if_splits
      dest!: dropWhile_Cons_shorter parse_spec_shorter)

text \<open>
  Automatic and manual field numbering may not be mixed; the only positional
  argument is number 0.
\<close>

datatype auto_number = ANS_INIT | ANS_AUTO | ANS_MANUAL

definition resolve_field :: "auto_number \<Rightarrow> nat \<Rightarrow> string \<Rightarrow> pyexc + (auto_number \<times> nat)" where
  "resolve_field st next_auto name =
     (if CHR ''.'' \<in> set name then Inl NotModelled
      else if name = [] then
        (if st = ANS_MANUAL then Inl ValueError
         else if next_auto \<noteq> 0 then Inl IndexError
         else Inr (ANS_AUTO, Suc next_auto))
      else if list_all is_digit name then
        (if length name > 9 then Inl NotModelled
         else if st = ANS_AUTO then Inl ValueError
         else if get_integer name \<noteq> 0 then Inl IndexError
         else Inr (ANS_MANUAL, next_auto))
      else Inl KeyError)"

function format_from :: "auto_number \<Rightarrow> nat \<Rightarrow> string \<Rightarrow> nat \<Rightarrow> pyexc + string" where
  "format_from st k [] n = Inr []"
| "format_from st k (c # cs) n =
     (if c = CHR ''}'' then
        (case cs of
           [] \<Rightarrow> Inl ValueError
         | c' # rest \<Rightarrow>
             if c' = CHR ''}'' then map_sum id ((#) c) (format_from st k rest n)
             else Inl ValueError)
      else if c = CHR ''{'' then
        (case cs of
           [] \<Rightarrow> Inl ValueError
         | c' # rest \<Rightarrow>
             if c' = CHR ''{'' then map_sum id ((#) c) (format_from st k rest n)
             else
               (case parse_field cs of
                  Inl e \<Rightarrow> Inl e
                | Inr (name, spec, after) \<Rightarrow>
                    (case resolve_field st k name of
                       Inl e \<Rightarrow> Inl e
                     | Inr (st', k') \<Rightarrow>
                         (case format_int spec n of
                            Inl e \<Rightarrow> Inl e
                          | Inr txt \<Rightarrow> map_sum id ((@) txt) (format_from st' k' after n)))))
      else map_sum id ((#) c) (format_from st k cs n))"
  by pat_completeness auto
termination
  by (relation "measure (\<lambda>(st, k, s, n). length s)")
     (auto dest: parse_field_shorter)

declare format_from.simps [simp del]

definition str_format :: "string \<Rightarrow> nat \<Rightarrow> pyexc + string" where
  "str_format fmt n = format_from ANS_INIT 0 fmt n"

subsection \<open>Values, keys and errors\<close>

text \<open>
  The values \<^verbatim>\<open>json.load\<close> produces, as Python objects: \<^verbatim>\<open>None\<close>, \<^verbatim>\<open>bool\<close>,
  \<^verbatim>\<open>int\<close>, \<^verbatim>\<open>float\<close> (its 64 bits), \<^verbatim>\<open>str\<close>, \<^verbatim>\<open>dict\<close> (its items in
  insertion order) and \<^verbatim>\<open>list\<close>. \<open>JOther\<close> is an object of any other type, named by
  its type; a dictionary key that is not a \<^verbatim>\<open>str\<close> is an \<open>OtherKey\<close>, named by its
  type. A parser never produces either, but \<^verbatim>\<open>flatten_json\<close> tests for both.
\<close>

datatype dkey = StrKey string | OtherKey string

datatype json =
    JNull
  | JBool bool
  | JInt int
  | JFloat "64 word"
  | JStr string
  | JObject "(dkey \<times> json) list"
  | JArray "json list"
  | JOther string

text \<open>\<^verbatim>\<open>type(x).__name__\<close>\<close>

fun type_name :: "json \<Rightarrow> string" where
  "type_name JNull = ''NoneType''"
| "type_name (JBool b) = ''bool''"
| "type_name (JInt i) = ''int''"
| "type_name (JFloat w) = ''float''"
| "type_name (JStr s) = ''str''"
| "type_name (JObject kvs) = ''dict''"
| "type_name (JArray xs) = ''list''"
| "type_name (JOther t) = t"

fun is_dict :: "json \<Rightarrow> bool" where
  "is_dict (JObject kvs) = True"
| "is_dict d = False"

fun is_list :: "json \<Rightarrow> bool" where
  "is_list (JArray xs) = True"
| "is_list d = False"

text \<open>\<^verbatim>\<open>isinstance(data, (str, int, float, bool)) or data is None\<close>\<close>

fun is_primitive :: "json \<Rightarrow> bool" where
  "is_primitive (JObject kvs) = False"
| "is_primitive (JArray xs) = False"
| "is_primitive (JOther t) = False"
| "is_primitive d = True"

text \<open>
  One constructor for each \<^verbatim>\<open>raise\<close> of the program, with the data its message
  carries, and one for each exception that reaches it from outside: \<open>FormatRaised\<close>
  is an exception of \<^verbatim>\<open>str.format\<close> that the program does not handle, \<open>OpenFailed\<close>
  an \<^verbatim>\<open>OSError\<close> of opening an input file, \<open>PathError\<close> a failure of
  \<^verbatim>\<open>get_json_files\<close>.
\<close>

datatype error =
    InvalidKeyType string
  | KeyTooLong string
  | KeyInvalidChars string
  | UnsupportedType string
  | MustBeDicts string
  | NotObjectOrArray
  | NoValidData
  | WriteFailed
  | BadSeparator
  | BadIndexFormat
  | FormatRaised pyexc
  | TopLevelNotContainer string
  | InvalidJson
  | EncodingError
  | OpenFailed
  | PathError pyexc

text \<open>
  The class of the exception object: every \<^verbatim>\<open>raise\<close> of the program but the
  \<^verbatim>\<open>IOError\<close> of \<^verbatim>\<open>write_csv\<close> raises a \<^verbatim>\<open>ValueError\<close> (\<^verbatim>\<open>JSONDecodeError\<close> is
  a subclass of it).
\<close>

fun exc_class :: "error \<Rightarrow> pyexc" where
  "exc_class WriteFailed = OSError"
| "exc_class OpenFailed = OSError"
| "exc_class (FormatRaised e) = e"
| "exc_class (PathError e) = e"
| "exc_class e = ValueError"

text \<open>\<^verbatim>\<open>except cls\<close> catches an exception of class \<open>cls\<close> or of a subclass of it.\<close>

definition catches :: "pyexc \<Rightarrow> error \<Rightarrow> bool" where
  "catches cls e =
     (exc_class e = cls \<or> (cls = OSError \<and> exc_class e = FileNotFoundError))"

subsection \<open>Constants\<close>

definition PARENT_KEY :: string where
  "PARENT_KEY = []"

definition KEY_SEPARATOR :: string where
  "KEY_SEPARATOR = ''_''"

definition INDEX_FORMAT :: string where
  "INDEX_FORMAT = ''{:04d}''"

definition CSV_HEADERS :: "string list" where
  "CSV_HEADERS = [''key'', ''value'']"

definition MAX_KEY_LENGTH :: nat where
  "MAX_KEY_LENGTH = 256"

subsection \<open>Generators\<close>

text \<open>
  A generator that is run to its end is the list of what it yielded and the
  exception that ended it (\<open>None\<close> when it returned). \<open>gen_then g h\<close> runs \<open>h\<close>
  after \<open>g\<close> unless \<open>g\<close> raised: what \<open>g\<close> yielded before raising stays yielded.
\<close>

type_synonym gen = "(string \<times> json) list \<times> error option"

definition gen_then :: "gen \<Rightarrow> gen \<Rightarrow> gen" where
  "gen_then g h = (case snd g of None \<Rightarrow> (fst g @ fst h, snd h) | Some e \<Rightarrow> g)"

definition raise :: "error \<Rightarrow> gen" where
  "raise e = ([], Some e)"

subsection \<open>Flattening\<close>

text \<open>\<^verbatim>\<open>f"{parent_key}{separator}{key}" if parent_key else key\<close>\<close>

definition compose_key :: "string \<Rightarrow> string \<Rightarrow> string \<Rightarrow> string" where
  "compose_key parent_key separator key =
     (if parent_key \<noteq> [] then parent_key @ separator @ key else key)"

text \<open>\<^verbatim>\<open>any(c in s for c in {",", "\n", "\r"})\<close>\<close>

definition has_invalid_chars :: "string \<Rightarrow> bool" where
  "has_invalid_chars s = list_ex (\<lambda>c. c \<in> set s) [CHR '','', CHR 0x0A, CHR 0x0D]"

text \<open>
  The segment of an array index:
  \<^verbatim>\<open>try: idx = index_format.format(index)  except ValueError: idx = str(index)\<close>.
  Any other exception of \<^verbatim>\<open>format\<close> leaves the \<^verbatim>\<open>try\<close> unhandled.
\<close>

definition index_segment :: "string \<Rightarrow> nat \<Rightarrow> pyexc + string" where
  "index_segment index_format index =
     (case str_format index_format index of
        Inr idx \<Rightarrow> Inr idx
      | Inl e \<Rightarrow> if e = ValueError then Inr (py_str index) else Inl e)"

text \<open>
  \<^verbatim>\<open>flatten_json\<close>, with its two loops: \<open>flatten_items\<close> is the loop over
  \<^verbatim>\<open>data.items()\<close>, \<open>flatten_elems index\<close> the loop over \<^verbatim>\<open>enumerate(data)\<close> from
  position \<open>index\<close> on.
\<close>

fun flatten_json :: "json \<Rightarrow> string \<Rightarrow> string \<Rightarrow> string \<Rightarrow> bool \<Rightarrow> gen"
  and flatten_items :: "(dkey \<times> json) list \<Rightarrow> string \<Rightarrow> string \<Rightarrow> string \<Rightarrow> bool \<Rightarrow> gen"
  and flatten_elems :: "nat \<Rightarrow> json list \<Rightarrow> string \<Rightarrow> string \<Rightarrow> string \<Rightarrow> bool \<Rightarrow> gen"
where
  "flatten_json (JObject kvs) parent_key separator index_format validate_keys =
     flatten_items kvs parent_key separator index_format validate_keys"
| "flatten_json (JArray xs) parent_key separator index_format validate_keys =
     flatten_elems 0 xs parent_key separator index_format validate_keys"
| "flatten_json JNull parent_key separator index_format validate_keys =
     ([(parent_key, JNull)], None)"
| "flatten_json (JBool b) parent_key separator index_format validate_keys =
     ([(parent_key, JBool b)], None)"
| "flatten_json (JInt i) parent_key separator index_format validate_keys =
     ([(parent_key, JInt i)], None)"
| "flatten_json (JFloat w) parent_key separator index_format validate_keys =
     ([(parent_key, JFloat w)], None)"
| "flatten_json (JStr t) parent_key separator index_format validate_keys =
     ([(parent_key, JStr t)], None)"
| "flatten_json (JOther t) parent_key separator index_format validate_keys =
     raise (UnsupportedType t)"
| "flatten_items [] parent_key separator index_format validate_keys = ([], None)"
| "flatten_items ((k, v) # rest) parent_key separator index_format validate_keys =
     (case k of
        OtherKey t \<Rightarrow> raise (InvalidKeyType t)
      | StrKey key \<Rightarrow>
          let new_key = compose_key parent_key separator key in
          if validate_keys \<and> length new_key > MAX_KEY_LENGTH then raise (KeyTooLong new_key)
          else if validate_keys \<and> has_invalid_chars new_key then raise (KeyInvalidChars new_key)
          else gen_then
                 (flatten_json v new_key separator index_format validate_keys)
                 (flatten_items rest parent_key separator index_format validate_keys))"
| "flatten_elems index [] parent_key separator index_format validate_keys = ([], None)"
| "flatten_elems index (item # rest) parent_key separator index_format validate_keys =
     (case index_segment index_format index of
        Inl e \<Rightarrow> raise (FormatRaised e)
      | Inr idx \<Rightarrow>
          gen_then
            (flatten_json item (compose_key parent_key separator idx)
               separator index_format validate_keys)
            (flatten_elems (Suc index) rest parent_key separator index_format validate_keys))"

text \<open>
  \<^verbatim>\<open>process_json_data\<close>; \<open>process_items\<close> is its loop over the elements of a
  top-level list.
\<close>

fun process_items :: "json list \<Rightarrow> string \<Rightarrow> string \<Rightarrow> string \<Rightarrow> bool \<Rightarrow> gen" where
  "process_items [] file_prefix separator index_format validate_keys = ([], None)"
| "process_items (item # rest) file_prefix separator index_format validate_keys =
     (if \<not> is_dict item then raise (MustBeDicts (type_name item))
      else gen_then
             (flatten_json item file_prefix separator index_format validate_keys)
             (process_items rest file_prefix separator index_format validate_keys))"

definition process_json_data :: "json \<Rightarrow> string \<Rightarrow> string \<Rightarrow> string \<Rightarrow> bool \<Rightarrow> gen" where
  "process_json_data data file_prefix separator index_format validate_keys =
     (if is_dict data
        then flatten_json data file_prefix separator index_format validate_keys
      else case data of
             JArray xs \<Rightarrow> process_items xs file_prefix separator index_format validate_keys
           | _ \<Rightarrow> raise NotObjectOrArray)"

subsection \<open>Measures on values\<close>

text \<open>
  The number of primitive leaves of a value (an empty container has none), and the
  values in which no dictionary occurs at any depth.
\<close>

fun leaf_count :: "json \<Rightarrow> nat"
  and leaf_count_items :: "(dkey \<times> json) list \<Rightarrow> nat"
  and leaf_count_elems :: "json list \<Rightarrow> nat"
where
  "leaf_count (JObject kvs) = leaf_count_items kvs"
| "leaf_count (JArray xs) = leaf_count_elems xs"
| "leaf_count (JOther t) = 0"
| "leaf_count JNull = 1"
| "leaf_count (JBool b) = 1"
| "leaf_count (JInt i) = 1"
| "leaf_count (JFloat w) = 1"
| "leaf_count (JStr t) = 1"
| "leaf_count_items [] = 0"
| "leaf_count_items ((k, v) # rest) = leaf_count v + leaf_count_items rest"
| "leaf_count_elems [] = 0"
| "leaf_count_elems (item # rest) = leaf_count item + leaf_count_elems rest"


subsection \<open>Writing the CSV file\<close>

text \<open>
  The file is modelled by the rows handed to \<^verbatim>\<open>csv.writer\<close>, each a list of cells: a
  text or a flattened value, which the writer renders. Where the file system fails is
  a parameter: creating the parent directory, opening the file, the \<open>k\<close>-th call of
  \<^verbatim>\<open>writerow\<close> (the header is call 0), or closing the file.
\<close>

datatype cell = Text string | Val json

datatype io_fault = NoFault | MkdirFails | OpenFails | WriteFails nat | CloseFails

text \<open>\<^verbatim>\<open>key.replace(",", "_")\<close>\<close>

definition sanitize_key :: "string \<Rightarrow> string" where
  "sanitize_key key = map (\<lambda>c. if c = CHR '','' then CHR ''_'' else c) key"

definition csv_rows :: "(string \<times> json) list \<Rightarrow> cell list list" where
  "csv_rows data =
     map Text CSV_HEADERS # map (\<lambda>(key, v). [Text (sanitize_key key), Val v]) data"

text \<open>
  \<^verbatim>\<open>write_csv\<close> on a sequence that does not raise (the program passes a list): the
  file left at the path, if one was created, and the row count or the exception.
  An \<^verbatim>\<open>IOError\<close> inside the \<^verbatim>\<open>try\<close> is raised again as \<open>WriteFailed\<close>; the count is
  tested after the file is closed.
\<close>

definition write_csv :: "io_fault \<Rightarrow> (string \<times> json) list \<Rightarrow> cell list list option \<times> (error + nat)" where
  "write_csv io data =
     (let row_count = length data in
      case io of
        MkdirFails \<Rightarrow> (None, Inl WriteFailed)
      | OpenFails \<Rightarrow> (None, Inl WriteFailed)
      | WriteFails k \<Rightarrow>
          if k \<le> row_count then (Some (take k (csv_rows data)), Inl WriteFailed)
          else (Some (csv_rows data), if row_count = 0 then Inl NoValidData else Inr row_count)
      | CloseFails \<Rightarrow> (Some (csv_rows data), Inl WriteFailed)
      | NoFault \<Rightarrow>
          (Some (csv_rows data), if row_count = 0 then Inl NoValidData else Inr row_count))"

subsection \<open>Arguments, input files and the main flow\<close>

text \<open>
  The namespace \<^verbatim>\<open>parser.parse_args()\<close> returns (\<open>input_path\<close> and \<open>output_path\<close>
  are its \<^verbatim>\<open>input\<close> and \<^verbatim>\<open>output\<close>).
\<close>

record args =
  input_path :: string
  output_path :: "string option"
  separator :: string
  index_format :: string
  validate_keys :: bool

text \<open>
  \<^verbatim>\<open>parse_arguments\<close>, from the namespace on: the check of the separator and the
  trial \<^verbatim>\<open>args.index_format.format(0)\<close>, of which only a \<^verbatim>\<open>ValueError\<close> is handled.
\<close>

definition parse_arguments :: "args \<Rightarrow> error + args" where
  "parse_arguments a =
     (if has_invalid_chars (separator a) then Inl BadSeparator
      else case str_format (index_format a) 0 of
             Inr t \<Rightarrow> Inr a
           | Inl e \<Rightarrow> if e = ValueError then Inl BadIndexFormat else Inl (FormatRaised e))"

text \<open>
  What \<^verbatim>\<open>load_json_data\<close> finds at a path: a file it cannot open, bytes that are not
  UTF-8, text that is not JSON, or a parsed document.
\<close>

datatype file_content = Unreadable | BadEncoding | BadJson | Parsed json

fun load_json_data :: "file_content \<Rightarrow> error + json" where
  "load_json_data Unreadable = Inl OpenFailed"
| "load_json_data BadEncoding = Inl EncodingError"
| "load_json_data BadJson = Inl InvalidJson"
| "load_json_data (Parsed data) =
     (if is_dict data \<or> is_list data then Inr data
      else Inl (TopLevelNotContainer (type_name data)))"

text \<open>
  The loop of \<^verbatim>\<open>run\<close> over the input files, each given by its stem and what is at its
  path. \<^verbatim>\<open>all_data.extend(rows)\<close> appends the pairs as the generator yields them, so
  the pairs yielded before an exception are in \<^verbatim>\<open>all_data\<close> when the handler runs.
  A \<^verbatim>\<open>ValueError\<close> is reported and the loop goes on; any other exception ends the run.
  The result is \<^verbatim>\<open>all_data\<close>, the exceptions reported and the exception that escaped.
\<close>

fun collect :: "args \<Rightarrow> (string \<times> file_content) list \<Rightarrow> (string \<times> json) list \<Rightarrow> error list
    \<Rightarrow> (string \<times> json) list \<times> error list \<times> error option" where
  "collect a [] all_data skipped = (all_data, skipped, None)"
| "collect a ((stem, content) # rest) all_data skipped =
     (case load_json_data content of
        Inl e \<Rightarrow>
          if catches ValueError e then collect a rest all_data (skipped @ [e])
          else (all_data, skipped, Some e)
      | Inr data \<Rightarrow>
          (case process_json_data data stem (separator a) (index_format a) (validate_keys a) of
             (rows, None) \<Rightarrow> collect a rest (all_data @ rows) skipped
           | (rows, Some e) \<Rightarrow>
               if catches ValueError e then collect a rest (all_data @ rows) (skipped @ [e])
               else (all_data @ rows, skipped, Some e)))"

text \<open>
  The environment of a run: the namespace, what \<^verbatim>\<open>get_json_files\<close> returns or
  raises, and the fault of the file system when the output is written.
\<close>

record env =
  argv :: args
  json_files :: "error + (string \<times> file_content) list"
  io :: io_fault

datatype outcome =
    InitializationFailed error
  | NoValidDataFound
  | WriteErrorExit error
  | Success nat
  | Uncaught error

record run_result =
  status :: outcome
  skipped_files :: "error list"
  csv_file :: "cell list list option"

definition init_caught :: "error \<Rightarrow> bool" where
  "init_caught e = (catches FileNotFoundError e \<or> catches ValueError e)"

definition write_caught :: "error \<Rightarrow> bool" where
  "write_caught e = (catches FileNotFoundError e \<or> catches ValueError e \<or> catches OSError e)"

definition run :: "env \<Rightarrow> run_result" where
  "run ev =
     (case parse_arguments (argv ev) of
        Inl e \<Rightarrow>
          \<lparr>status = (if init_caught e then InitializationFailed e else Uncaught e),
           skipped_files = [], csv_file = None\<rparr>
      | Inr a \<Rightarrow>
          (case json_files ev of
             Inl e \<Rightarrow>
               \<lparr>status = (if init_caught e then InitializationFailed e else Uncaught e),
                skipped_files = [], csv_file = None\<rparr>
           | Inr files \<Rightarrow>
               (case collect a files [] [] of
                  (all_data, skipped, Some e) \<Rightarrow>
                    \<lparr>status = Uncaught e, skipped_files = skipped, csv_file = None\<rparr>
                | (all_data, skipped, None) \<Rightarrow>
                    if all_data = [] then
                      \<lparr>status = NoValidDataFound, skipped_files = skipped, csv_file = None\<rparr>
                    else
                      (case write_csv (io ev) all_data of
                         (file, Inr row_count) \<Rightarrow>
                           \<lparr>status = Success row_count, skipped_files = skipped,
                            csv_file = file\<rparr>
                       | (file, Inl e) \<Rightarrow>
                           \<lparr>status = (if write_caught e then WriteErrorExit e else Uncaught e),
                            skipped_files = skipped, csv_file = file\<rparr>))))"

section \<open>Properties\<close>

subsection \<open>Generators and leaves\<close>

lemma gen_then_None [simp]: "gen_then (xs, None) h = (xs @ fst h, snd h)"
  by (simp add: gen_then_def)

lemma gen_then_Some [simp]: "gen_then (xs, Some e) h = (xs, Some e)"
  by (simp add: gen_then_def)

lemma gen_then_raise [simp]: "gen_then (raise e) h = raise e"
  by (simp add: gen_then_def raise_def)

lemma flatten_primitive:
  "is_primitive d \<Longrightarrow> flatten_json d p s f v = ([(p, d)], None)"
  by (cases d) simp_all

subsection \<open>The default index format\<close>


subsection \<open>Worked scenarios\<close>

text \<open>
  Claim C1. The document \<^verbatim>\<open>{"a": {"b": 1, "c": [10, 20]}}\<close>, processed with file prefix
  \<^verbatim>\<open>f\<close>, separator \<^verbatim>\<open>_\<close>, the default index format and key validation off, yields
  the three pairs \<^verbatim>\<open>(f_a_b, 1)\<close>, \<^verbatim>\<open>(f_a_c_0000, 10)\<close>, \<^verbatim>\<open>(f_a_c_0001, 20)\<close> in this
  order, nothing else, and no exception.
\<close>

theorem C1_nested_example:
  "process_json_data
     (JObject [(StrKey ''a'',
        JObject [(StrKey ''b'', JInt 1), (StrKey ''c'', JArray [JInt 10, JInt 20])])])
     ''f'' ''_'' INDEX_FORMAT False
   = ([(''f_a_b'', JInt 1), (''f_a_c_0000'', JInt 10), (''f_a_c_0001'', JInt 20)], None)"
  by code_simp

lemma process_items_objects:
  "process_items (map JObject objs) p s f v =
     foldr gen_then (map (\<lambda>kvs. flatten_json (JObject kvs) p s f v) objs) ([], None)"
  by (induction objs) simp_all

text \<open>
  Claim C6. The top-level array \<^verbatim>\<open>[{"x": true}, {"x": false}]\<close> with file prefix \<^verbatim>\<open>f\<close>
  and the default configuration yields \<^verbatim>\<open>(f_x, True)\<close> then \<^verbatim>\<open>(f_x, False)\<close>. In
  general the pairs of a top-level array of objects are those of its elements, one
  after the other, each flattened with the same file prefix as its starting key: no
  position of the element enters the key, so equal field names give equal keys.
\<close>

theorem C6_array_of_objects:
  "process_json_data
     (JArray [JObject [(StrKey ''x'', JBool True)], JObject [(StrKey ''x'', JBool False)]])
     ''f'' KEY_SEPARATOR INDEX_FORMAT False
   = ([(''f_x'', JBool True), (''f_x'', JBool False)], None)
   \<and> process_json_data (JArray (map JObject objs)) p s f v
     = foldr gen_then (map (\<lambda>kvs. flatten_json (JObject kvs) p s f v) objs) ([], None)"
proof
  show "process_json_data
     (JArray [JObject [(StrKey ''x'', JBool True)], JObject [(StrKey ''x'', JBool False)]])
     ''f'' KEY_SEPARATOR INDEX_FORMAT False
   = ([(''f_x'', JBool True), (''f_x'', JBool False)], None)"
    by code_simp
next
  show "process_json_data (JArray (map JObject objs)) p s f v
     = foldr gen_then (map (\<lambda>kvs. flatten_json (JObject kvs) p s f v) objs) ([], None)"
    by (simp add: process_json_data_def process_items_objects)
qed

subsection \<open>Counting leaves\<close>

lemma gen_then_fst_le: "length (fst (gen_then g h)) \<le> length (fst g) + length (fst h)"
  by (cases g) (auto simp: gen_then_def split: option.splits)

lemma gen_then_snd_None:
  "snd (gen_then g h) = None \<longleftrightarrow> snd g = None \<and> snd h = None"
  by (cases g) (auto simp: gen_then_def split: option.splits)

lemma gen_then_fst_ok:
  "snd g = None \<Longrightarrow> fst (gen_then g h) = fst g @ fst h"
  by (cases g) (auto simp: gen_then_def)

lemma leaf_count_upper:
  "length (fst (flatten_json d p s f v)) \<le> leaf_count d"
  "length (fst (flatten_items kvs p s f v)) \<le> leaf_count_items kvs"
  "length (fst (flatten_elems i xs p s f v)) \<le> leaf_count_elems xs"
proof (induction d p s f v and kvs p s f v and i xs p s f v
    rule: flatten_json_flatten_items_flatten_elems.induct)
  case (10 k d rest p s f v)
  show ?case
  proof (cases k)
    case (OtherKey t)
    then show ?thesis by (simp add: raise_def)
  next
    case (StrKey key)
    show ?thesis
    proof (cases "v \<and> (length (compose_key p s key) > MAX_KEY_LENGTH
        \<or> has_invalid_chars (compose_key p s key))")
      case True
      with StrKey show ?thesis by (auto simp: raise_def Let_def)
    next
      case False
      have ih1: "length (fst (flatten_json d (compose_key p s key) s f v)) \<le> leaf_count d"
        using "10.IH"(1) [OF StrKey refl] False by auto
      have ih2: "length (fst (flatten_items rest p s f v)) \<le> leaf_count_items rest"
        using "10.IH"(2) [OF StrKey refl] False by auto
      have "flatten_items ((k, d) # rest) p s f v =
          gen_then (flatten_json d (compose_key p s key) s f v) (flatten_items rest p s f v)"
        using StrKey False by (auto simp: Let_def)
      with ih1 ih2 show ?thesis
        using gen_then_fst_le [of "flatten_json d (compose_key p s key) s f v"
            "flatten_items rest p s f v"]
        by simp
    qed
  qed
next
  case (12 i item rest p s f v)
  show ?case
  proof (cases "index_segment f i")
    case (Inl e)
    then show ?thesis by (simp add: raise_def)
  next
    case (Inr idx)
    have ih1: "length (fst (flatten_json item (compose_key p s idx) s f v)) \<le> leaf_count item"
      using "12.IH"(1) [OF Inr] .
    have ih2: "length (fst (flatten_elems (Suc i) rest p s f v)) \<le> leaf_count_elems rest"
      using "12.IH"(2) [OF Inr] .
    from ih1 ih2 Inr show ?thesis
      using gen_then_fst_le [of "flatten_json item (compose_key p s idx) s f v"
          "flatten_elems (Suc i) rest p s f v"]
      by simp
  qed
qed (simp_all add: raise_def)

lemma leaf_count_exact:
  "snd (flatten_json d p s f v) = None \<Longrightarrow>
     length (fst (flatten_json d p s f v)) = leaf_count d"
  "snd (flatten_items kvs p s f v) = None \<Longrightarrow>
     length (fst (flatten_items kvs p s f v)) = leaf_count_items kvs"
  "snd (flatten_elems i xs p s f v) = None \<Longrightarrow>
     length (fst (flatten_elems i xs p s f v)) = leaf_count_elems xs"
proof (induction d p s f v and kvs p s f v and i xs p s f v
    rule: flatten_json_flatten_items_flatten_elems.induct)
  case (10 k d rest p s f v)
  show ?case
  proof (cases k)
    case (OtherKey t)
    with "10.prems" show ?thesis by (simp add: raise_def)
  next
    case (StrKey key)
    show ?thesis
    proof (cases "v \<and> (length (compose_key p s key) > MAX_KEY_LENGTH
        \<or> has_invalid_chars (compose_key p s key))")
      case True
      with StrKey "10.prems" show ?thesis
        by (auto simp: raise_def Let_def split: if_splits)
    next
      case False
      have eq: "flatten_items ((k, d) # rest) p s f v =
          gen_then (flatten_json d (compose_key p s key) s f v) (flatten_items rest p s f v)"
        using StrKey False by (auto simp: Let_def)
      with "10.prems" have ok: "snd (flatten_json d (compose_key p s key) s f v) = None"
          "snd (flatten_items rest p s f v) = None"
        by (simp_all add: gen_then_snd_None)
      have ih1: "length (fst (flatten_json d (compose_key p s key) s f v)) = leaf_count d"
        using "10.IH"(1) [OF StrKey refl _ _ ok(1)] False by auto
      have ih2: "length (fst (flatten_items rest p s f v)) = leaf_count_items rest"
        using "10.IH"(2) [OF StrKey refl _ _ ok(2)] False by auto
      from eq ih1 ih2 ok show ?thesis by (simp add: gen_then_fst_ok)
    qed
  qed
next
  case (12 i item rest p s f v)
  show ?case
  proof (cases "index_segment f i")
    case (Inl e)
    with "12.prems" show ?thesis by (simp add: raise_def)
  next
    case (Inr idx)
    with "12.prems" have ok: "snd (flatten_json item (compose_key p s idx) s f v) = None"
        "snd (flatten_elems (Suc i) rest p s f v) = None"
      by (simp_all add: gen_then_snd_None)
    have ih1: "length (fst (flatten_json item (compose_key p s idx) s f v)) = leaf_count item"
      using "12.IH"(1) [OF Inr ok(1)] .
    have ih2: "length (fst (flatten_elems (Suc i) rest p s f v)) = leaf_count_elems rest"
      using "12.IH"(2) [OF Inr ok(2)] .
    from ih1 ih2 ok Inr show ?thesis by (simp add: gen_then_fst_ok)
  qed
qed (simp_all add: raise_def)

subsection \<open>Composed keys and flat objects\<close>

lemma flatten_items_flat:
  assumes "p \<noteq> []" and "list_all (\<lambda>(k, d). is_primitive d) flds"
    and "snd (flatten_items (map (\<lambda>(k, d). (StrKey k, d)) flds) p s f v) = None"
  shows "fst (flatten_items (map (\<lambda>(k, d). (StrKey k, d)) flds) p s f v)
     = map (\<lambda>(k, d). (p @ s @ k, d)) flds"
  using assms(2,3)
proof (induction flds)
  case Nil
  then show ?case by simp
next
  case (Cons kd flds)
  obtain k d where kd: "kd = (k, d)" by (cases kd)
  with Cons.prems(1) have prim: "is_primitive d" by simp
  show ?case
  proof (cases "v \<and> (length (compose_key p s k) > MAX_KEY_LENGTH
      \<or> has_invalid_chars (compose_key p s k))")
    case True
    with Cons.prems(2) kd show ?thesis
      by (auto simp: raise_def Let_def split: if_splits)
  next
    case False
    then have eq: "flatten_items (map (\<lambda>(k, d). (StrKey k, d)) (kd # flds)) p s f v =
        gen_then ([(compose_key p s k, d)], None)
          (flatten_items (map (\<lambda>(k, d). (StrKey k, d)) flds) p s f v)"
      using kd by (auto simp: Let_def flatten_primitive [OF prim])
    with Cons.prems(2) have "snd (flatten_items (map (\<lambda>(k, d). (StrKey k, d)) flds) p s f v) = None"
      by simp
    with Cons.IH Cons.prems(1) have "fst (flatten_items (map (\<lambda>(k, d). (StrKey k, d)) flds) p s f v)
        = map (\<lambda>(k, d). (p @ s @ k, d)) flds"
      by simp
    with eq kd assms(1) show ?thesis by (simp add: compose_key_def)
  qed
qed

lemma flatten_items_unvalidated:
  "list_all (\<lambda>(k, d). is_primitive d) flds \<Longrightarrow>
   snd (flatten_items (map (\<lambda>(k, d). (StrKey k, d)) flds) p s f False) = None"
proof (induction flds)
  case Nil
  then show ?case by simp
next
  case (Cons kd flds)
  obtain k d where kd: "kd = (k, d)" by (cases kd)
  with Cons.prems have prim: "is_primitive d" by simp
  from Cons kd show ?case
    by (simp add: Let_def flatten_primitive [OF prim])
qed

text \<open>
  Claim C7, as amended. With an empty parent key the composed key is the child alone;
  otherwise it is the parent, the separator and the child. For an object whose values
  are all primitive and a non-empty prefix, when key validation is off, or is on and
  rejects no key, the pairs are the fields in order, each under the key prefix +
  separator + field name, so there are as many rows as fields.
\<close>

theorem C7_compose_key_flat:
  "compose_key [] s c = c
   \<and> (p \<noteq> [] \<longrightarrow> compose_key p s c = p @ s @ c)
   \<and> (p \<noteq> [] \<and> list_all (\<lambda>(k, d). is_primitive d) flds
        \<and> (\<not> v \<or> snd (flatten_json (JObject (map (\<lambda>(k, d). (StrKey k, d)) flds)) p s f v) = None)
      \<longrightarrow> flatten_json (JObject (map (\<lambda>(k, d). (StrKey k, d)) flds)) p s f v
            = (map (\<lambda>(k, d). (p @ s @ k, d)) flds, None)
          \<and> length (fst (flatten_json (JObject (map (\<lambda>(k, d). (StrKey k, d)) flds)) p s f v))
            = length flds)"
proof (intro conjI impI)
  show "compose_key [] s c = c" by (simp add: compose_key_def)
next
  assume "p \<noteq> []"
  then show "compose_key p s c = p @ s @ c" by (simp add: compose_key_def)
next
  assume a: "p \<noteq> [] \<and> list_all (\<lambda>(k, d). is_primitive d) flds
        \<and> (\<not> v \<or> snd (flatten_json (JObject (map (\<lambda>(k, d). (StrKey k, d)) flds)) p s f v) = None)"
  have ok: "snd (flatten_items (map (\<lambda>(k, d). (StrKey k, d)) flds) p s f v) = None"
  proof (cases v)
    case True
    with a show ?thesis by simp
  next
    case False
    with a show ?thesis using flatten_items_unvalidated [of flds p s f] by simp
  qed
  with a have "fst (flatten_items (map (\<lambda>(k, d). (StrKey k, d)) flds) p s f v)
     = map (\<lambda>(k, d). (p @ s @ k, d)) flds"
    using flatten_items_flat [of p flds s f v] by simp
  with ok show res: "flatten_json (JObject (map (\<lambda>(k, d). (StrKey k, d)) flds)) p s f v
            = (map (\<lambda>(k, d). (p @ s @ k, d)) flds, None)"
    by (simp add: prod_eq_iff)
  then show "length (fst (flatten_json (JObject (map (\<lambda>(k, d). (StrKey k, d)) flds)) p s f v))
            = length flds"
    by simp
qed

theorem C7_compose_key_flat_witness:
  "compose_key [] ''_'' ''a'' = ''a''
   \<and> compose_key ''f'' ''_'' ''a'' = ''f_a''
   \<and> flatten_json (JObject [(StrKey ''a'', JInt 1), (StrKey ''b'', JStr ''x'')]) ''f'' ''_'' INDEX_FORMAT False
     = ([(''f_a'', JInt 1), (''f_b'', JStr ''x'')], None)
   \<and> length (fst (flatten_json (JObject [(StrKey ''a'', JInt 1), (StrKey ''b'', JStr ''x'')])
        ''f'' ''_'' INDEX_FORMAT False)) = 2"
  using C7_compose_key_flat [of "''_''" "''a''" "''f''" "[(''a'', JInt 1), (''b'', JStr ''x'')]"
      False INDEX_FORMAT]
  by simp

text \<open>
  The claim as stated covers every configuration. With key validation on, the flat
  object \<^verbatim>\<open>{"a,b": 1}\<close> is rejected at its only field: no row for one field.
\<close>

theorem C7_validation_counterexample:
  "flatten_json (JObject [(StrKey ''a,b'', JInt 1)]) ''f'' ''_'' INDEX_FORMAT True
     = ([], Some (KeyInvalidChars ''f_a,b''))
   \<and> length (fst (flatten_json (JObject [(StrKey ''a,b'', JInt 1)]) ''f'' ''_'' INDEX_FORMAT True))
     \<noteq> length [(StrKey ''a,b'', JInt 1)]"
  by code_simp

subsection \<open>Empty containers and top-level primitives\<close>

text \<open>
  Claim C8. An empty object and an empty array yield no pair and no exception under
  every parent key, that is at every depth. More generally a value never yields more
  pairs than it has primitive leaves, and exactly that many when no exception ends the
  flattening: containers add nothing of their own. A primitive flattened with the empty
  parent key yields one pair, whose key is the empty string.
\<close>

theorem C8_empty_containers:
  "flatten_json (JObject []) p s f v = ([], None)
   \<and> flatten_json (JArray []) p s f v = ([], None)
   \<and> length (fst (flatten_json d p s f v)) \<le> leaf_count d
   \<and> (snd (flatten_json d p s f v) = None \<longrightarrow>
        length (fst (flatten_json d p s f v)) = leaf_count d)
   \<and> (is_primitive d \<longrightarrow> flatten_json d PARENT_KEY s f v = ([([], d)], None))"
  using leaf_count_upper(1) [of d p s f v] leaf_count_exact(1) [of d p s f v]
    flatten_primitive [of d PARENT_KEY s f v]
  by (simp add: PARENT_KEY_def)

theorem C8_empty_containers_witness:
  "flatten_json (JObject []) ''f'' ''_'' INDEX_FORMAT True = ([], None)
   \<and> flatten_json (JArray []) ''f'' ''_'' INDEX_FORMAT True = ([], None)
   \<and> length (fst (flatten_json
         (JObject [(StrKey ''a'', JObject []), (StrKey ''b'', JArray [JArray [], JInt 5, JObject []])])
         ''f'' ''_'' INDEX_FORMAT True)) = 1
   \<and> flatten_json (JStr ''x'') PARENT_KEY ''_'' INDEX_FORMAT True = ([([], JStr ''x'')], None)"
proof -
  have ok: "snd (flatten_json
         (JObject [(StrKey ''a'', JObject []), (StrKey ''b'', JArray [JArray [], JInt 5, JObject []])])
         ''f'' ''_'' INDEX_FORMAT True) = None"
    by code_simp
  have n: "leaf_count
         (JObject [(StrKey ''a'', JObject []), (StrKey ''b'', JArray [JArray [], JInt 5, JObject []])]) = 1"
    by simp
  show ?thesis
    using C8_empty_containers [of "''f''" "''_''" INDEX_FORMAT True
        "JObject [(StrKey ''a'', JObject []), (StrKey ''b'', JArray [JArray [], JInt 5, JObject []])]"]
      C8_empty_containers [of "''f''" "''_''" INDEX_FORMAT True "JStr ''x''"]
      ok n
    by simp
qed

subsection \<open>Writing no rows\<close>

lemma write_csv_success:
  "snd (write_csv fault data) = Inr n \<Longrightarrow> 1 \<le> n \<and> n = length data"
  by (cases fault) (auto simp: write_csv_def Let_def Suc_le_eq split: if_splits)

lemma write_csv_empty_fails: "snd (write_csv fault []) \<noteq> Inr n"
  by (cases fault) (auto simp: write_csv_def Let_def)

text \<open>
  Claim C9. With no pair to write and a file system that does not fail, \<^verbatim>\<open>write_csv\<close>
  writes the header row and then raises \<open>NoValidData\<close>; whatever the file system does,
  it does not return a row count for an empty sequence, and a row count it returns is
  the number of pairs, at least 1.
\<close>

theorem C9_empty_output:
  "write_csv NoFault [] = (Some [map Text CSV_HEADERS], Inl NoValidData)
   \<and> (\<forall>n. snd (write_csv fault []) \<noteq> Inr n)
   \<and> (snd (write_csv fault data) = Inr n \<longrightarrow> 1 \<le> n \<and> n = length data)"
  using write_csv_success [of fault data n] write_csv_empty_fails [of fault]
  by (simp add: write_csv_def csv_rows_def)

theorem C9_empty_output_witness:
  "write_csv NoFault [] = (Some [[Text ''key'', Text ''value'']], Inl NoValidData)
   \<and> (\<forall>n. snd (write_csv CloseFails []) \<noteq> Inr n)
   \<and> snd (write_csv NoFault [(''f_a'', JInt 1)]) = Inr 1"
proof -
  have "snd (write_csv NoFault [(''f_a'', JInt 1)]) = Inr 1"
    by (simp add: write_csv_def)
  then show ?thesis
    using C9_empty_output [of NoFault "[(''f_a'', JInt 1)]" 1] C9_empty_output [of CloseFails]
    by (simp add: CSV_HEADERS_def)
qed

subsection \<open>Array indices\<close>











subsection \<open>Key validation at object fields only\<close>

lemma field_key_too_long:
  "MAX_KEY_LENGTH < length (compose_key p s key) \<Longrightarrow>
   flatten_items ((StrKey key, d) # rest) p s f True = raise (KeyTooLong (compose_key p s key))"
  by (simp add: Let_def)

lemma field_key_invalid_chars:
  "\<not> MAX_KEY_LENGTH < length (compose_key p s key) \<Longrightarrow> has_invalid_chars (compose_key p s key) \<Longrightarrow>
   flatten_items ((StrKey key, d) # rest) p s f True
     = raise (KeyInvalidChars (compose_key p s key))"
  by (simp add: Let_def)

lemma sanitize_key_no_comma: "CHR '','' \<notin> set (sanitize_key key)"
  by (auto simp: sanitize_key_def)

text \<open>
  Claim C2, at an input where the program departs from it. With key validation on, the
  field \<^verbatim>\<open>kkk...k\<close> (252 characters) under the prefix \<^verbatim>\<open>f\<close> composes a key of 254
  characters, which passes; its value \<^verbatim>\<open>[1]\<close> composes \<^verbatim>\<open>f_kkk...k_0000\<close>, of 259
  characters, at the array step, where nothing is checked: the pair is yielded and no
  exception is raised. (The two lemmas above are the part of the claim that holds: a
  key composed at an object field is rejected when too long or ill-formed.)
\<close>

theorem C2_index_key_not_validated:
  "flatten_json (JObject [(StrKey (replicate 252 CHR ''k''), JArray [JInt 1])])
     ''f'' ''_'' INDEX_FORMAT True
   = ([(''f_'' @ replicate 252 CHR ''k'' @ ''_0000'', JInt 1)], None)
   \<and> length (''f_'' @ replicate 252 CHR ''k'' @ ''_0000'') = 259"
  by code_simp

subsection \<open>The separator check\<close>

lemma has_invalid_chars_iff:
  "has_invalid_chars s \<longleftrightarrow> CHR '','' \<in> set s \<or> CHR 0x0A \<in> set s \<or> CHR 0x0D \<in> set s"
  by (simp add: has_invalid_chars_def)

lemma separator_rejected:
  "has_invalid_chars (separator a) \<Longrightarrow> parse_arguments a = Inl BadSeparator"
  by (simp add: parse_arguments_def)

lemma rejected_arguments_end_run:
  "parse_arguments (argv ev) = Inl e \<Longrightarrow>
   csv_file (run ev) = None \<and> skipped_files (run ev) = []
   \<and> status (run ev) = (if init_caught e then InitializationFailed e else Uncaught e)"
  by (simp add: run_def)

text \<open>
  Claim C3, at an input where the program departs from it. The message of the check
  reads \<^verbatim>\<open>Separator cannot be empty, a comma, or a newline!\<close>, but the test looks
  for a comma, a line feed or a carriage return inside the separator, and the empty
  separator holds none: \<^verbatim>\<open>parse_arguments\<close> returns the namespace unchanged. (The
  lemmas above are the part of the claim that holds.)
\<close>

theorem C3_empty_separator_accepted:
  "parse_arguments \<lparr>input_path = ''.'', output_path = None, separator = [],
      index_format = INDEX_FORMAT, validate_keys = False\<rparr>
   = Inr \<lparr>input_path = ''.'', output_path = None, separator = [],
      index_format = INDEX_FORMAT, validate_keys = False\<rparr>"
  by code_simp

subsection \<open>A file that fails half-way\<close>

text \<open>
  Claim C5, at an input where the program departs from it. The file \<^verbatim>\<open>f.json\<close> holds
  \<^verbatim>\<open>[{"a": 1}, 2]\<close>: its first element yields \<^verbatim>\<open>(f_a, 1)\<close>, its second raises. The
  exception is reported and the loop goes on to \<^verbatim>\<open>g.json\<close>, but the pair
  already appended to \<^verbatim>\<open>all_data\<close> stays there, and the output has a row of the file
  reported as skipped.
\<close>

theorem C5_partial_rows_kept:
  "run \<lparr>argv = \<lparr>input_path = ''.'', output_path = None, separator = KEY_SEPARATOR,
              index_format = INDEX_FORMAT, validate_keys = False\<rparr>,
        json_files = Inr [(''f'', Parsed (JArray [JObject [(StrKey ''a'', JInt 1)], JInt 2])),
                          (''g'', Parsed (JObject [(StrKey ''b'', JInt 2)]))],
        io = NoFault\<rparr>
   = \<lparr>status = Success 2, skipped_files = [MustBeDicts ''int''],
      csv_file = Some [[Text ''key'', Text ''value''],
                       [Text ''f_a'', Val (JInt 1)], [Text ''g_b'', Val (JInt 2)]]\<rparr>"
  by code_simp

end
